theory Spec2Isabelle
  imports Main
begin

section \<open>Python values\<close>

text \<open>
  A Python \<open>str\<close> is a sequence of Unicode code points; \<open>len\<close> and slicing count code
  points, so a string is modelled as a list of code points (natural numbers), not as a
  list of bytes. \<open>lit\<close> turns an ASCII literal of the source into such a list.
\<close>

type_synonym pystr = "nat list"

definition lit :: "string \<Rightarrow> pystr" where
  "lit s = map of_char s"

text \<open>
  What \<open>json.loads\<close> returns: \<open>None\<close>, a bool, an int, a float, a str, a list or a dict
  with string keys. A dict is the list of its items. The program never computes with a
  float, so a float is kept as the numeral it was read from.
\<close>

datatype pyval =
    PNone
  | PBool bool
  | PInt int
  | PFloat pystr
  | PStr pystr
  | PList "pyval list"
  | PDict "(pystr \<times> pyval) list"

text \<open>
  Exceptions. \<open>KeyError\<close> carries the missing key. \<open>Builtin\<close> collects the other errors the
  interpreter raises in the operators modelled below (\<open>TypeError\<close>, \<open>IndexError\<close>,
  \<open>ValueError\<close>; slicing a dict is a \<open>TypeError\<close> before Python 3.12 and a \<open>KeyError\<close>
  from then on): all of them are subclasses of \<open>Exception\<close>, and the program never tells
  them apart. \<open>Raised c s\<close> is any other subclass of \<open>Exception\<close>, raised by a library
  call (class name \<open>c\<close>, \<open>str(e) = s\<close>). \<open>KeyboardInterrupt\<close> derives from
  \<open>BaseException\<close> only, so \<open>except Exception\<close> does not catch it.
\<close>

datatype builtin_error =
    NotIterable pyval
  | NoLen pyval
  | NotSubscriptable pyval
  | BadIndex pyval
  | BadSlice pyval
  | BadConcat pyval
  | IndexOutOfRange pyval
  | BadInt pystr

datatype exn =
    KeyError pyval
  | Builtin builtin_error
  | Raised pystr pystr
  | KeyboardInterrupt

fun is_Exception :: "exn \<Rightarrow> bool" where
  "is_Exception KeyboardInterrupt = False"
| "is_Exception _ = True"

text \<open>
  The parts of the Python runtime that the program relies on and that are tables or
  wording of the interpreter rather than code of the program: the Unicode properties of
  the code points beyond ASCII (whitespace, digit, decimal value, and the lower-case
  image of the code point at a position of a string), the limit on the number of digits
  \<open>int()\<close> converts (\<open>0\<close>: no limit), \<open>repr\<close> of a value and the text of the interpreter's
  own error messages.
\<close>

record runtime =
  u_space :: "nat \<Rightarrow> bool"
  u_digit :: "nat \<Rightarrow> bool"
  u_decimal :: "nat \<Rightarrow> nat option"
  u_lower :: "pystr \<Rightarrow> nat \<Rightarrow> pystr"
  max_str_digits :: nat
  py_repr :: "pyval \<Rightarrow> pystr"
  builtin_text :: "builtin_error \<Rightarrow> pystr"

text \<open>\<open>str(e)\<close>; for a \<open>KeyError\<close> it is the \<open>repr\<close> of the missing key.\<close>

fun exc_str :: "runtime \<Rightarrow> exn \<Rightarrow> pystr" where
  "exc_str rt (KeyError k) = py_repr rt k"
| "exc_str rt (Builtin b) = builtin_text rt b"
| "exc_str rt (Raised c s) = s"
| "exc_str rt KeyboardInterrupt = []"

text \<open>
  A value inside an f-string: a str is inserted as it is, every other value of the
  types above through \<open>str\<close>, which is \<open>repr\<close> for them.
\<close>

fun py_format :: "runtime \<Rightarrow> pyval \<Rightarrow> pystr" where
  "py_format rt (PStr s) = s"
| "py_format rt v = py_repr rt v"

text \<open>An int inside an f-string: its decimal digits, with a minus sign when negative.\<close>

fun digits :: "nat \<Rightarrow> pystr" where
  "digits n = (if n < 10 then [48 + n] else digits (n div 10) @ [48 + n mod 10])"

definition str_int :: "int \<Rightarrow> pystr" where
  "str_int i = (if i < 0 then 45 # digits (nat (- i)) else digits (nat i))"

subsection \<open>Operators on values\<close>

text \<open>\<open>k in v\<close> for a str \<open>k\<close>: key of a dict, element of a list, substring of a str.\<close>

fun is_substr :: "pystr \<Rightarrow> pystr \<Rightarrow> bool" where
  "is_substr k [] = (k = [])"
| "is_substr k (c # s) = (take (length k) (c # s) = k \<or> is_substr k s)"

fun py_contains :: "pystr \<Rightarrow> pyval \<Rightarrow> exn + bool" where
  "py_contains k (PDict kvs) = Inr (map_of kvs k \<noteq> None)"
| "py_contains k (PList xs) = Inr (PStr k \<in> set xs)"
| "py_contains k (PStr s) = Inr (is_substr k s)"
| "py_contains k v = Inl (Builtin (NotIterable v))"

fun py_len :: "pyval \<Rightarrow> exn + nat" where
  "py_len (PStr s) = Inr (length s)"
| "py_len (PList xs) = Inr (length xs)"
| "py_len (PDict kvs) = Inr (length (remdups (map fst kvs)))"
| "py_len v = Inl (Builtin (NoLen v))"

text \<open>\<open>v[k]\<close> for a str \<open>k\<close>.\<close>

fun py_getitem :: "pyval \<Rightarrow> pystr \<Rightarrow> exn + pyval" where
  "py_getitem (PDict kvs) k =
     (case map_of kvs k of Some x \<Rightarrow> Inr x | None \<Rightarrow> Inl (KeyError (PStr k)))"
| "py_getitem (PList xs) k = Inl (Builtin (BadIndex (PList xs)))"
| "py_getitem (PStr s) k = Inl (Builtin (BadIndex (PStr s)))"
| "py_getitem v k = Inl (Builtin (NotSubscriptable v))"

text \<open>\<open>v[0]\<close>. The keys of a parsed JSON object are strings, so \<open>0\<close> is never one.\<close>

fun py_first :: "pyval \<Rightarrow> exn + pyval" where
  "py_first (PList xs) =
     (case xs of [] \<Rightarrow> Inl (Builtin (IndexOutOfRange (PList xs))) | x # _ \<Rightarrow> Inr x)"
| "py_first (PStr s) =
     (case s of [] \<Rightarrow> Inl (Builtin (IndexOutOfRange (PStr s))) | c # _ \<Rightarrow> Inr (PStr [c]))"
| "py_first (PDict kvs) = Inl (KeyError (PInt 0))"
| "py_first v = Inl (Builtin (NotSubscriptable v))"

text \<open>\<open>v[:100]\<close> and \<open>v + "..."\<close>.\<close>

fun py_slice100 :: "pyval \<Rightarrow> exn + pyval" where
  "py_slice100 (PStr s) = Inr (PStr (take 100 s))"
| "py_slice100 (PList xs) = Inr (PList (take 100 xs))"
| "py_slice100 (PDict kvs) = Inl (Builtin (BadSlice (PDict kvs)))"
| "py_slice100 v = Inl (Builtin (NotSubscriptable v))"

fun py_add_str :: "pyval \<Rightarrow> pystr \<Rightarrow> exn + pyval" where
  "py_add_str (PStr s) t = Inr (PStr (s @ t))"
| "py_add_str v t = Inl (Builtin (BadConcat v))"

definition bind_exn :: "exn + 'a \<Rightarrow> ('a \<Rightarrow> exn + 'b) \<Rightarrow> exn + 'b" where
  "bind_exn m f = (case m of Inl e \<Rightarrow> Inl e | Inr x \<Rightarrow> f x)"

section \<open>The chatbot\<close>

record message =
  role :: pystr
  content :: pyval

record chatbot =
  api_key :: pystr
  conversation_history :: "message list"
  api_url :: pystr
  model :: pystr
  max_tokens :: int

text \<open>
  The constructor. The default of line 19 is a credential; it is not written out here
  and comes as the argument \<open>default_key\<close>. \<open>api_key or default\<close> takes the default for
  \<open>None\<close> and for the empty str.
\<close>

definition init :: "pystr \<Rightarrow> pystr option \<Rightarrow> chatbot" where
  "init default_key key =
     \<lparr>api_key = (case key of None \<Rightarrow> default_key
                  | Some k \<Rightarrow> if k = [] then default_key else k),
      conversation_history = [],
      api_url = lit ''https://openrouter.ai/api/v1/chat/completions'',
      model = lit ''deepseek/deepseek-r1-0528:free'',
      max_tokens = 1000\<rparr>"

subsection \<open>\<open>make_api_request\<close>\<close>

text \<open>
  What lines 31 to 54 produce, the request being sent once: the parsed body of the
  response (\<open>Success\<close>); an \<open>HTTPError\<close> raised by \<open>urlopen\<close>, with its status code and
  what \<open>e.read().decode('utf-8')\<close> of line 66 yields, an exception or the text together
  with what \<open>json.loads\<close> of line 75 makes of this text (\<open>None\<close>: it raises); or any other
  exception raised by sending, reading, decoding or parsing (\<open>Failed\<close>).
\<close>

record error_body =
  error_msg :: pystr
  error_data :: "pyval option"

datatype exchange =
    Success pyval
  | HTTPError int "exn + error_body"
  | Failed exn

definition cross :: pystr where
  "cross = [10060]"

definition apology :: pystr where
  "apology = lit ''I'' @ [39] @ lit ''m sorry, I couldn'' @ [39] @ lit ''t generate a response.''"

definition auth_failed :: pystr where
  "auth_failed = cross @ lit '' Authentication failed. Please check your API key.''"

definition rate_limited :: pystr where
  "rate_limited = cross @ lit '' Rate limit exceeded. Please wait a moment and try again.''"

definition bad_request :: pystr where
  "bad_request = cross @ lit '' Bad request. Please check your message format.''"

definition api_error_prefix :: pystr where
  "api_error_prefix = cross @ lit '' API Error: ''"

definition error_prefix :: pystr where
  "error_prefix = cross @ lit '' Error: ''"

text \<open>
  Lines 57 to 58: the content of the first choice, \<open>None\<close> when the condition of line 57
  is false, an exception when a lookup raises.
\<close>

definition first_choice :: "pyval \<Rightarrow> exn + pyval option" where
  "first_choice result =
     bind_exn (py_contains (lit ''choices'') result) (\<lambda>has.
       if \<not> has then Inr None
       else bind_exn (py_getitem result (lit ''choices'')) (\<lambda>choices.
         bind_exn (py_len choices) (\<lambda>n.
           if n > 0 then
             bind_exn (py_first choices) (\<lambda>c.
               bind_exn (py_getitem c (lit ''message'')) (\<lambda>m.
                 bind_exn (py_getitem m (lit ''content'')) (\<lambda>a. Inr (Some a))))
           else Inr None)))"

text \<open>
  Lines 75 to 77, inside the \<open>try\<close> whose bare \<open>except\<close> passes: the value of
  \<open>error_data['error']['message']\<close> when line 77 is reached.
\<close>

definition nested_message :: "pyval \<Rightarrow> exn + pyval option" where
  "nested_message d =
     bind_exn (py_contains (lit ''error'') d) (\<lambda>has.
       if \<not> has then Inr None
       else bind_exn (py_getitem d (lit ''error'')) (\<lambda>err.
         bind_exn (py_contains (lit ''message'') err) (\<lambda>has_msg.
           if \<not> has_msg then Inr None
           else bind_exn (py_getitem err (lit ''message'')) (\<lambda>m. Inr (Some m)))))"

text \<open>
  Lines 65 to 80, the handler of \<open>HTTPError\<close>. An exception raised by line 66 is raised
  inside the handler, where the \<open>except Exception\<close> of line 81 does not apply: it
  leaves the function.
\<close>

definition api_error :: "runtime \<Rightarrow> int \<Rightarrow> error_body \<Rightarrow> pystr" where
  "api_error rt code b =
     (case (case error_data b of None \<Rightarrow> None
            | Some d \<Rightarrow>
                (case nested_message d of Inl e \<Rightarrow> None | Inr r \<Rightarrow> r)) of
        Some m \<Rightarrow> api_error_prefix @ py_format rt m
      | None \<Rightarrow> cross @ lit '' API Error ('' @ str_int code @ lit ''): '' @ error_msg b)"

definition http_error :: "runtime \<Rightarrow> int \<Rightarrow> exn + error_body \<Rightarrow> exn + pyval" where
  "http_error rt code body =
     (case body of
        Inl e \<Rightarrow> Inl e
      | Inr b \<Rightarrow>
          Inr (PStr
            (if code = 401 then auth_failed
             else if code = 429 then rate_limited
             else if code = 400 then bad_request
             else api_error rt code b)))"

text \<open>Lines 81 to 82.\<close>

definition other_error :: "runtime \<Rightarrow> exn \<Rightarrow> exn + pyval" where
  "other_error rt e =
     (if is_Exception e then Inr (PStr (error_prefix @ exc_str rt e)) else Inl e)"

text \<open>
  The method: the value returned (\<open>Inr\<close>) or the exception that leaves it (\<open>Inl\<close>), and
  the object afterwards.
\<close>

definition make_api_request ::
  "runtime \<Rightarrow> chatbot \<Rightarrow> pystr \<Rightarrow> exchange \<Rightarrow> (exn + pyval) \<times> chatbot" where
  "make_api_request rt self msg ex =
     (let self1 = self\<lparr>conversation_history :=
            conversation_history self @ [\<lparr>role = lit ''user'', content = PStr msg\<rparr>]\<rparr>
      in case ex of
           Failed e \<Rightarrow> (other_error rt e, self1)
         | HTTPError code body \<Rightarrow> (http_error rt code body, self1)
         | Success result \<Rightarrow>
             (case first_choice result of
                Inl e \<Rightarrow> (other_error rt e, self1)
              | Inr None \<Rightarrow> (Inr (PStr apology), self1)
              | Inr (Some assistant_response) \<Rightarrow>
                  (Inr assistant_response,
                   self1\<lparr>conversation_history :=
                     conversation_history self1 @
                       [\<lparr>role = lit ''assistant'', content = assistant_response\<rparr>]\<rparr>)))"

text \<open>
  Calls of the method one after the other, as the loop of \<open>run\<close> makes them: each takes
  the object the one before left, whatever that one returned.
\<close>

fun submissions :: "runtime \<Rightarrow> chatbot \<Rightarrow> (pystr \<times> exchange) list \<Rightarrow> chatbot" where
  "submissions rt self [] = self"
| "submissions rt self ((msg, ex) # rest) =
     submissions rt (snd (make_api_request rt self msg ex)) rest"

subsection \<open>Text operations\<close>

text \<open>
  \<open>str.strip\<close>, \<open>str.lower\<close>, \<open>str.isdigit\<close> and \<open>int\<close>. On ASCII they are fixed; beyond
  ASCII they follow the tables of the runtime. \<open>py_int\<close> is \<open>int(s)\<close> for a str that
  \<open>isdigit\<close> accepts, its only use (line 159): such a string has neither sign, blank nor
  underscore, and \<open>int\<close> raises \<open>ValueError\<close> when a character has no decimal value or
  when there are more digits than the limit allows (CPython checks the limit only
  beyond 640 digits).
\<close>

definition is_space :: "runtime \<Rightarrow> nat \<Rightarrow> bool" where
  "is_space rt c =
     (if c < 128 then (9 \<le> c \<and> c \<le> 13) \<or> (28 \<le> c \<and> c \<le> 32) else u_space rt c)"

definition strip :: "runtime \<Rightarrow> pystr \<Rightarrow> pystr" where
  "strip rt s = rev (dropWhile (is_space rt) (rev (dropWhile (is_space rt) s)))"

definition lower :: "runtime \<Rightarrow> pystr \<Rightarrow> pystr" where
  "lower rt s =
     concat (map (\<lambda>i. let c = s ! i in
                    if c < 128 then [if 65 \<le> c \<and> c \<le> 90 then c + 32 else c]
                    else u_lower rt s i) [0..<length s])"

definition is_digit :: "runtime \<Rightarrow> nat \<Rightarrow> bool" where
  "is_digit rt c = (if c < 128 then 48 \<le> c \<and> c \<le> 57 else u_digit rt c)"

definition isdigit :: "runtime \<Rightarrow> pystr \<Rightarrow> bool" where
  "isdigit rt s = (s \<noteq> [] \<and> list_all (is_digit rt) s)"

definition decimal :: "runtime \<Rightarrow> nat \<Rightarrow> nat option" where
  "decimal rt c =
     (if c < 128 then (if 48 \<le> c \<and> c \<le> 57 then Some (c - 48) else None)
      else u_decimal rt c)"

fun digits_value :: "runtime \<Rightarrow> nat \<Rightarrow> pystr \<Rightarrow> nat option" where
  "digits_value rt acc [] = Some acc"
| "digits_value rt acc (c # s) =
     (case decimal rt c of None \<Rightarrow> None | Some d \<Rightarrow> digits_value rt (10 * acc + d) s)"

definition py_int :: "runtime \<Rightarrow> pystr \<Rightarrow> exn + int" where
  "py_int rt s =
     (case digits_value rt 0 s of
        None \<Rightarrow> Inl (Builtin (BadInt s))
      | Some n \<Rightarrow>
          if 640 < length s \<and> 0 < max_str_digits rt \<and> max_str_digits rt < length s
          then Inl (Builtin (BadInt s)) else Inr (int n))"

subsection \<open>What the program writes\<close>

text \<open>
  \<open>Print s\<close> is \<open>print(s)\<close>, \<open>Prompt s\<close> the prompt that \<open>input(s)\<close> writes, \<open>ClearScreen\<close>
  the command run by \<open>os.system\<close>. Writing to the terminal is taken to succeed.
\<close>

datatype effect = Print pystr | Prompt pystr | ClearScreen

definition clear_screen :: "effect list" where
  "clear_screen = [ClearScreen]"

definition print_header :: "effect list" where
  "print_header =
     [Print (replicate 60 61),
      Print ([129302] @ lit '' OPENAI TERMINAL CHATBOT''),
      Print (replicate 60 61),
      Print (lit ''Type '' @ [39] @ lit ''quit'' @ [39] @ lit '', '' @ [39] @ lit ''exit'' @ [39]
             @ lit '', or '' @ [39] @ lit ''bye'' @ [39] @ lit '' to end the conversation''),
      Print (lit ''Type '' @ [39] @ lit ''clear'' @ [39] @ lit '' to clear the screen''),
      Print (lit ''Type '' @ [39] @ lit ''history'' @ [39] @ lit '' to see conversation history''),
      Print (lit ''Type '' @ [39] @ lit ''help'' @ [39] @ lit '' for more commands''),
      Print (replicate 60 45)]"

definition print_help :: "effect list" where
  "print_help =
     [Print ([10, 128218] @ lit '' Available Commands:''),
      Print (lit ''  help     - Show this help message''),
      Print (lit ''  quit     - Exit the chatbot''),
      Print (lit ''  exit     - Exit the chatbot''),
      Print (lit ''  bye      - Exit the chatbot''),
      Print (lit ''  clear    - Clear the screen''),
      Print (lit ''  history  - Show conversation history''),
      Print (lit ''  reset    - Reset conversation history''),
      Print (lit ''  model    - Show current model information''),
      Print (lit ''  models   - Switch between available models''),
      Print []]"

subsection \<open>\<open>show_history\<close>\<close>

text \<open>Line 125: the value of \<open>content\<close>, or the exception the expression raises.\<close>

definition shown_content :: "pyval \<Rightarrow> exn + pyval" where
  "shown_content c =
     bind_exn (py_len c) (\<lambda>n.
       if n > 100 then bind_exn (py_slice100 c) (\<lambda>h. py_add_str h (lit ''...''))
       else Inr c)"

text \<open>\<open>{i:2d}\<close>: the decimal digits, padded with blanks on the left to two characters.\<close>

definition pad2 :: "nat \<Rightarrow> pystr" where
  "pad2 i = replicate (2 - length (digits i)) 32 @ digits i"

definition history_line :: "runtime \<Rightarrow> nat \<Rightarrow> pystr \<Rightarrow> message \<Rightarrow> pyval \<Rightarrow> pystr" where
  "history_line rt i timestamp msg c =
     pad2 i @ lit ''. ['' @ timestamp @ lit ''] ''
       @ (if role msg = lit ''user'' then lit ''You'' else lit ''AI'')
       @ lit '': '' @ py_format rt c"

text \<open>
  The loop of lines 122 to 126 from index \<open>i\<close> on; \<open>clock i\<close> is what
  \<open>datetime.now().strftime("%H:%M")\<close> gives at message \<open>i\<close>. It ends at the first message
  whose line 125 raises, with that exception.
\<close>

fun history_lines ::
  "runtime \<Rightarrow> (nat \<Rightarrow> pystr) \<Rightarrow> nat \<Rightarrow> message list \<Rightarrow> effect list \<times> exn option" where
  "history_lines rt clock i [] = ([], None)"
| "history_lines rt clock i (msg # rest) =
     (case shown_content (content msg) of
        Inl e \<Rightarrow> ([], Some e)
      | Inr c \<Rightarrow>
          (case history_lines rt clock (Suc i) rest of
             (out, r) \<Rightarrow> (Print (history_line rt i (clock i) msg c) # out, r)))"

definition show_history ::
  "runtime \<Rightarrow> (nat \<Rightarrow> pystr) \<Rightarrow> chatbot \<Rightarrow> effect list \<times> exn option" where
  "show_history rt clock self =
     (if conversation_history self = []
      then ([Print ([10, 128221] @ lit '' No conversation history yet.'')], None)
      else
        (case history_lines rt clock 1 (conversation_history self) of
           (out, r) \<Rightarrow>
             ([Print ([10, 128221] @ lit '' Conversation History (''
                      @ digits (length (conversation_history self)) @ lit '' messages):''),
               Print (replicate 50 45)]
              @ out @ (case r of None \<Rightarrow> [Print []] | Some e \<Rightarrow> []), r)))"

subsection \<open>\<open>reset_history\<close>, \<open>show_model_info\<close>\<close>

definition reset_history :: "chatbot \<Rightarrow> chatbot \<times> effect list" where
  "reset_history self =
     (self\<lparr>conversation_history := []\<rparr>,
      [Print ([128260] @ lit '' Conversation history has been reset.'')])"

definition show_model_info :: "chatbot \<Rightarrow> effect list" where
  "show_model_info self =
     [Print ([10, 128295] @ lit '' Current Configuration:''),
      Print (lit ''  Model: '' @ model self),
      Print (lit ''  Max Tokens: '' @ str_int (max_tokens self)),
      Print (lit ''  Messages in History: '' @ digits (length (conversation_history self))),
      Print (lit ''  API Key: '' @ take 20 (api_key self) @ lit ''...''
             @ drop (length (api_key self) - 10) (api_key self)),
      Print []]"

subsection \<open>\<open>switch_models\<close>\<close>

definition models :: "pystr list" where
  "models = [lit ''gpt-3.5-turbo'', lit ''gpt-4'', lit ''gpt-4-turbo-preview'']"

definition invalid_selection :: pystr where
  "invalid_selection = [10060] @ lit '' Invalid selection.''"

definition cancelled :: pystr where
  "cancelled = lit ''Cancelled.''"

definition list_models :: "chatbot \<Rightarrow> effect list" where
  "list_models self =
     Print ([10, 129302] @ lit '' Available Models:'') #
     map (\<lambda>i. Print (lit ''  '' @ digits (Suc i) @ lit ''. '' @ models ! i
                    @ (if models ! i = model self then lit '' (current)'' else [])))
       [0..<length models]"

text \<open>
  Lines 156 to 169, \<open>typed\<close> being what \<open>input\<close> yields: the line typed, or the exception
  it raises (\<open>EOFError\<close>, \<open>KeyboardInterrupt\<close>). The result is the object, what was
  written, and the exception that leaves the method, if any.
\<close>

definition choose_model ::
  "runtime \<Rightarrow> chatbot \<Rightarrow> exn + pystr \<Rightarrow> chatbot \<times> effect list \<times> exn option" where
  "choose_model rt self typed =
     (let failed = (\<lambda>e. if is_Exception e
                         then (self, [Print ([10060] @ lit '' Error switching models: ''
                                             @ exc_str rt e), Print []], None)
                         else (self, [], Some e))
      in case typed of
           Inl e \<Rightarrow> failed e
         | Inr line \<Rightarrow>
             (let choice = strip rt line in
              if choice \<noteq> [] \<and> isdigit rt choice then
                (case py_int rt choice of
                   Inl e \<Rightarrow> failed e
                 | Inr n \<Rightarrow>
                     (let choice_idx = n - 1 in
                      if 0 \<le> choice_idx \<and> choice_idx < int (length models) then
                        (self\<lparr>model := models ! nat choice_idx\<rparr>,
                         [Print ([9989] @ lit '' Switched to model: ''
                                 @ models ! nat choice_idx), Print []], None)
                      else (self, [Print invalid_selection, Print []], None)))
              else (self, [Print cancelled, Print []], None)))"

definition select_prompt :: effect where
  "select_prompt = Prompt ([10] @ lit ''Select model number (or press Enter to cancel): '')"

definition switch_models ::
  "runtime \<Rightarrow> chatbot \<Rightarrow> exn + pystr \<Rightarrow> chatbot \<times> effect list \<times> exn option" where
  "switch_models rt self typed =
     (case choose_model rt self typed of
        (self', out, r) \<Rightarrow> (self', list_models self @ [select_prompt] @ out, r))"

subsection \<open>The loop of \<open>run\<close>\<close>

text \<open>
  What one pass of the loop meets: what \<open>input\<close> yields at the prompt, what it yields
  inside \<open>switch_models\<close>, the outcome of the HTTP exchange and the clock, each used only
  when the pass comes to it.
\<close>

record turn =
  typed :: "exn + pystr"
  selected :: "exn + pystr"
  served :: exchange
  clock :: "nat \<Rightarrow> pystr"

text \<open>
  Lines 181 to 224, the body of the \<open>try\<close>: the object, what was written, whether the
  loop ends (\<open>break\<close>), and the exception raised, if any.
\<close>

definition command_of :: "runtime \<Rightarrow> pystr \<Rightarrow> pystr" where
  "command_of rt user_input = lower rt user_input"

definition attempt ::
  "runtime \<Rightarrow> chatbot \<Rightarrow> turn \<Rightarrow> chatbot \<times> effect list \<times> bool \<times> exn option" where
  "attempt rt self t =
     (let prompt = Prompt ([10, 128172] @ lit '' You: '') in
      case typed t of
        Inl e \<Rightarrow> (self, [prompt], False, Some e)
      | Inr line \<Rightarrow>
          (let user_input = strip rt line; command = command_of rt user_input in
           if user_input = [] then (self, [prompt], False, None)
           else if command \<in> set [lit ''quit'', lit ''exit'', lit ''bye''] then
             (self, [prompt, Print ([10, 128075] @ lit '' Goodbye! Thanks for chatting with me!'')],
              True, None)
           else if command = lit ''clear'' then
             (self, prompt # clear_screen @ print_header, False, None)
           else if command = lit ''help'' then (self, prompt # print_help, False, None)
           else if command = lit ''history'' then
             (case show_history rt (clock t) self of
                (out, r) \<Rightarrow> (self, prompt # out, False, r))
           else if command = lit ''reset'' then
             (case reset_history self of (self', out) \<Rightarrow> (self', prompt # out, False, None))
           else if command = lit ''model'' then
             (self, prompt # show_model_info self, False, None)
           else if command = lit ''models'' then
             (case switch_models rt self (selected t) of
                (self', out, r) \<Rightarrow> (self', prompt # out, False, r))
           else
             (case make_api_request rt self user_input (served t) of
                (Inl e, self') \<Rightarrow>
                  (self', [prompt, Print ([10, 129300] @ lit '' AI is thinking...'')],
                   False, Some e)
              | (Inr response, self') \<Rightarrow>
                  (self',
                   [prompt, Print ([10, 129300] @ lit '' AI is thinking...''),
                    Print ([10, 129302] @ lit '' AI: '' @ py_format rt response)],
                   False, None))))"

text \<open>
  One pass with the handlers of lines 226 to 231: \<open>KeyboardInterrupt\<close> ends the loop,
  any \<open>Exception\<close> is reported and the loop goes on.
\<close>

definition pass :: "runtime \<Rightarrow> chatbot \<Rightarrow> turn \<Rightarrow> chatbot \<times> effect list \<times> bool" where
  "pass rt self t =
     (case attempt rt self t of
        (self', out, stop, None) \<Rightarrow> (self', out, stop)
      | (self', out, stop, Some e) \<Rightarrow>
          if is_Exception e then
            (self',
             out @ [Print ([10, 10060] @ lit '' Unexpected error: '' @ exc_str rt e),
                    Print (lit ''Please try again or type '' @ [39] @ lit ''quit'' @ [39]
                           @ lit '' to exit.'')],
             False)
          else
            (self', out @ [Print ([10, 10, 128075] @ lit '' Goodbye! (Interrupted by user)'')],
             True))"

text \<open>
  The loop over the turns that come, as far as they go: it ends at the first pass
  that breaks, and is still waiting for input when the turns are used up.
\<close>

fun passes :: "runtime \<Rightarrow> chatbot \<Rightarrow> turn list \<Rightarrow> chatbot \<times> effect list" where
  "passes rt self [] = (self, [])"
| "passes rt self (t # ts) =
     (case pass rt self t of
        (self', out, stop) \<Rightarrow>
          if stop then (self', out)
          else (case passes rt self' ts of (self'', out') \<Rightarrow> (self'', out @ out')))"

definition run :: "runtime \<Rightarrow> chatbot \<Rightarrow> turn list \<Rightarrow> chatbot \<times> effect list" where
  "run rt self ts =
     (case passes rt self ts of
        (self', out) \<Rightarrow>
          (self',
           clear_screen @ print_header
             @ [Print (lit ''Hello! I'' @ [39]
                       @ lit ''m your AI assistant. How can I help you today?'')]
             @ out))"

subsection \<open>A runtime to run the model on\<close>

text \<open>
  The runtime cut down to ASCII: beyond ASCII no code point is a blank or a digit and
  none changes under \<open>lower\<close>; the digit limit is CPython's default; \<open>repr\<close> quotes a
  str between apostrophes, which is what Python does for text without apostrophe,
  backslash or control character; every error of the interpreter is worded with the
  same short word. The theorems below hold for every runtime; this one serves where
  a term has to be evaluated.
\<close>

fun join :: "pystr \<Rightarrow> pystr list \<Rightarrow> pystr" where
  "join sep [] = []"
| "join sep [x] = x"
| "join sep (x # y # ys) = x @ sep @ join sep (y # ys)"

fun repr_plain :: "pyval \<Rightarrow> pystr" where
  "repr_plain PNone = lit ''None''"
| "repr_plain (PBool b) = (if b then lit ''True'' else lit ''False'')"
| "repr_plain (PInt i) = str_int i"
| "repr_plain (PFloat f) = f"
| "repr_plain (PStr s) = [39] @ s @ [39]"
| "repr_plain (PList xs) = [91] @ join (lit '', '') (map repr_plain xs) @ [93]"
| "repr_plain (PDict kvs) =
     [123] @ join (lit '', '')
               (map (\<lambda>(k, v). [39] @ k @ [39] @ lit '': '' @ repr_plain v) kvs) @ [125]"

definition ascii_runtime :: runtime where
  "ascii_runtime =
     \<lparr>u_space = (\<lambda>c. False), u_digit = (\<lambda>c. False), u_decimal = (\<lambda>c. None),
      u_lower = (\<lambda>s i. [s ! i]), max_str_digits = 4300, py_repr = repr_plain,
      builtin_text = (\<lambda>b. lit ''error'')\<rparr>"

subsection \<open>Notions used by the properties\<close>



text \<open>
  In the words of the specification: the \<open>error.message\<close> field of an error body that
  parses as JSON, when the body is an object whose member \<open>error\<close> is an object with a
  member \<open>message\<close>.
\<close>

definition error_message_field :: "error_body \<Rightarrow> pyval option" where
  "error_message_field b =
     (case error_data b of
        Some (PDict kvs) \<Rightarrow>
          (case map_of kvs (lit ''error'') of
             Some (PDict e) \<Rightarrow> map_of e (lit ''message'')
           | _ \<Rightarrow> None)
      | _ \<Rightarrow> None)"

text \<open>
  Two objects with the same configuration apart from the model: key, URL and token
  limit. (The temperature is the literal of line 36, not a field.)
\<close>

definition same_config :: "chatbot \<Rightarrow> chatbot \<Rightarrow> bool" where
  "same_config a b =
     (api_key a = api_key b \<and> api_url a = api_url b \<and> max_tokens a = max_tokens b)"





text \<open>The two other messages of \<open>switch_models\<close>, lines 162 and 168.\<close>

definition switched :: "pystr \<Rightarrow> pystr" where
  "switched m = [9989] @ lit '' Switched to model: '' @ m"

definition switch_error :: "runtime \<Rightarrow> exn \<Rightarrow> pystr" where
  "switch_error rt e = [10060] @ lit '' Error switching models: '' @ exc_str rt e"

text \<open>The two messages of a completed exchange: the text sent and the reply.\<close>

definition exchange_pair :: "pystr \<times> pyval \<times> pyval \<Rightarrow> message list" where
  "exchange_pair x =
     (case x of (m, r, a) \<Rightarrow>
        [\<lparr>role = lit ''user'', content = PStr m\<rparr>, \<lparr>role = lit ''assistant'', content = a\<rparr>])"

text \<open>
  Inputs for the examples: a chatbot as the constructor leaves it, and the exception
  that \<open>decode('utf-8')\<close> raises on the one-byte body \<open>ff\<close>.
\<close>

definition new_chatbot :: chatbot where
  "new_chatbot = init (lit ''sk-default'') None"

definition decode_error :: exn where
  "decode_error =
     Raised (lit ''UnicodeDecodeError'')
       ([39] @ lit ''utf-8'' @ [39] @ lit '' codec can'' @ [39]
        @ lit ''t decode byte 0xff in position 0: invalid start byte'')"



text \<open>
  The ASCII runtime with the three superscript digits of Latin-1: \<open>isdigit\<close> accepts them
  and they have no decimal value, so \<open>int\<close> raises on them.
\<close>

definition superscript_runtime :: runtime where
  "superscript_runtime = ascii_runtime\<lparr>u_digit := (\<lambda>c. c = 178 \<or> c = 179 \<or> c = 185)\<rparr>"

definition hi_body :: pyval where
  "hi_body = PDict [(lit ''choices'',
     PList [PDict [(lit ''message'', PDict [(lit ''content'', PStr (lit ''hi''))])]])]"

section \<open>Properties of \<open>make_api_request\<close>\<close>

subsection \<open>The lookups raise exceptions that line 81 catches\<close>



lemma py_getitem_raises: "py_getitem v k = Inl e \<Longrightarrow> is_Exception e"
  by (cases v) (auto split: option.splits)



text \<open>Lines 57 and 58 on a JSON object.\<close>

lemma first_choice_dict:
  "first_choice (PDict kvs) =
     (case map_of kvs (lit ''choices'') of
        None \<Rightarrow> Inr None
      | Some choices \<Rightarrow>
          bind_exn (py_len choices) (\<lambda>n.
            if n > 0 then
              bind_exn (py_first choices) (\<lambda>c.
                bind_exn (py_getitem c (lit ''message'')) (\<lambda>m.
                  bind_exn (py_getitem m (lit ''content'')) (\<lambda>a. Inr (Some a))))
            else Inr None))"
  by (simp add: first_choice_def bind_exn_def split: option.splits)

text \<open>The response of the expected shape: the content of the first choice is found.\<close>

lemma first_choice_content:
  assumes "map_of kvs (lit ''choices'') = Some (PList (PDict c # cs))"
    and "map_of c (lit ''message'') = Some (PDict m)"
    and "map_of m (lit ''content'') = Some a"
  shows "first_choice (PDict kvs) = Inr (Some a)"
  using assms by (simp add: first_choice_dict bind_exn_def)

lemma prefix_not_apology: "error_prefix @ x \<noteq> apology"
  by (simp add: error_prefix_def cross_def apology_def lit_def)

subsection \<open>A reply is returned and recorded\<close>

text \<open>
  C1. Whatever the chatbot holds, when the response to \<open>hello\<close> is the body
  \<open>{"choices":[{"message":{"content":"hi"}}]}\<close>, the method returns \<open>hi\<close> and the
  transcript is the one before followed by the user message \<open>hello\<close> and the assistant
  message \<open>hi\<close>, in this order.
\<close>

theorem make_api_request_hi:
  "make_api_request rt self (lit ''hello'')
     (Success (PDict [(lit ''choices'',
        PList [PDict [(lit ''message'', PDict [(lit ''content'', PStr (lit ''hi''))])]])])) =
   (Inr (PStr (lit ''hi'')),
    self\<lparr>conversation_history := conversation_history self @
      [\<lparr>role = lit ''user'', content = PStr (lit ''hello'')\<rparr>,
       \<lparr>role = lit ''assistant'', content = PStr (lit ''hi'')\<rparr>]\<rparr>)"
  by (simp add: make_api_request_def first_choice_dict bind_exn_def)

subsection \<open>What leaves the method\<close>




text \<open>
  Nor is every exception kept inside: an HTTP error with status 500 whose body is the
  byte \<open>ff\<close> makes line 66 raise inside the handler, and the exception leaves the method.
\<close>

lemma make_api_request_500_undecodable:
  "fst (make_api_request ascii_runtime new_chatbot (lit ''hello'')
          (HTTPError 500 (Inl decode_error)))
   = Inl decode_error"
  by (simp add: make_api_request_def http_error_def)

subsection \<open>A response without choice\<close>

text \<open>
  C4. Whatever the chatbot holds and whatever the text, when the response is a JSON
  object with no key \<open>choices\<close> or with an empty array under it, the method returns the
  apology and the transcript has gained the user message only.
\<close>

theorem make_api_request_no_choice:
  assumes "map_of kvs (lit ''choices'') = None \<or> map_of kvs (lit ''choices'') = Some (PList [])"
  shows "make_api_request rt self msg (Success (PDict kvs)) =
     (Inr (PStr apology),
      self\<lparr>conversation_history := conversation_history self @
        [\<lparr>role = lit ''user'', content = PStr msg\<rparr>]\<rparr>)"
  using assms by (auto simp add: make_api_request_def first_choice_dict bind_exn_def)

theorem make_api_request_no_choice_witness:
  "(map_of [(lit ''choices'', PList [])] (lit ''choices'') = None \<or>
    map_of [(lit ''choices'', PList [])] (lit ''choices'') = Some (PList [])) \<and>
   make_api_request ascii_runtime new_chatbot (lit ''hello'')
     (Success (PDict [(lit ''choices'', PList [])])) =
   (Inr (PStr apology),
    new_chatbot\<lparr>conversation_history := conversation_history new_chatbot @
      [\<lparr>role = lit ''user'', content = PStr (lit ''hello'')\<rparr>]\<rparr>)"
proof -
  have h: "map_of [(lit ''choices'', PList [])] (lit ''choices'') = None \<or>
           map_of [(lit ''choices'', PList [])] (lit ''choices'') = Some (PList [])"
    by simp
  show ?thesis
    using h make_api_request_no_choice [OF h, of ascii_runtime new_chatbot "lit ''hello''"] by simp
qed

subsection \<open>Status 401\<close>

text \<open>
  With a body that can be read and decoded, status 401 gives the authentication
  message, and the transcript gains the user message only.
\<close>

lemma make_api_request_401_readable:
  "make_api_request rt self msg (HTTPError 401 (Inr b)) =
     (Inr (PStr auth_failed),
      self\<lparr>conversation_history := conversation_history self @
        [\<lparr>role = lit ''user'', content = PStr msg\<rparr>]\<rparr>)"
  by (simp add: make_api_request_def http_error_def)

lemma make_api_request_429_400_readable:
  "fst (make_api_request rt self msg (HTTPError 429 (Inr b))) = Inr (PStr rate_limited) \<and>
   fst (make_api_request rt self msg (HTTPError 400 (Inr b))) = Inr (PStr bad_request)"
  by (simp add: make_api_request_def http_error_def)

text \<open>
  C5. The property is that status 401 always gives the authentication message. Line 66
  reads and decodes the body before line 67 looks at the status, outside any \<open>try\<close>: when
  the body of the 401 response is the byte \<open>ff\<close>, the method returns nothing and
  \<open>UnicodeDecodeError\<close> leaves it. The user message has been appended, no assistant
  message.
\<close>

theorem make_api_request_401_undecodable:
  "make_api_request ascii_runtime new_chatbot (lit ''hello'') (HTTPError 401 (Inl decode_error)) =
     (Inl decode_error,
      new_chatbot\<lparr>conversation_history := [\<lparr>role = lit ''user'', content = PStr (lit ''hello'')\<rparr>]\<rparr>)"
  by (simp add: make_api_request_def http_error_def new_chatbot_def init_def)

subsection \<open>A first choice without message or content\<close>

text \<open>
  C10. When the response is a JSON object whose \<open>choices\<close> is a non-empty array and the
  lookup \<open>['message']['content']\<close> in the first choice raises \<open>e\<close> (the first choice has
  no \<open>message\<close>, or the message no \<open>content\<close>), the method does not fail: it returns the
  prefix of line 82 followed by \<open>str(e)\<close>, which is not the apology, and the transcript
  has gained the user message only.
\<close>

theorem make_api_request_lookup_fails:
  assumes "map_of kvs (lit ''choices'') = Some (PList (c # cs))"
    and "bind_exn (py_getitem c (lit ''message'')) (\<lambda>m. py_getitem m (lit ''content'')) = Inl e"
  shows "make_api_request rt self msg (Success (PDict kvs)) =
           (Inr (PStr (error_prefix @ exc_str rt e)),
            self\<lparr>conversation_history := conversation_history self @
              [\<lparr>role = lit ''user'', content = PStr msg\<rparr>]\<rparr>) \<and>
         error_prefix @ exc_str rt e \<noteq> apology"
proof -
  from assms(2) have "is_Exception e"
    by (auto simp add: bind_exn_def split: sum.splits dest: py_getitem_raises)
  moreover from assms have "first_choice (PDict kvs) = Inl e"
    by (auto simp add: first_choice_dict bind_exn_def split: sum.splits)
  ultimately show ?thesis
    by (simp add: make_api_request_def other_error_def prefix_not_apology)
qed

text \<open>
  The two cases of the claim: a first choice that is an object without \<open>message\<close>, and
  one whose \<open>message\<close> is an object without \<open>content\<close>. The exception is the \<open>KeyError\<close> of
  the missing key.
\<close>

lemma lookup_without_message:
  "map_of c (lit ''message'') = None \<Longrightarrow>
   bind_exn (py_getitem (PDict c) (lit ''message'')) (\<lambda>m. py_getitem m (lit ''content''))
   = Inl (KeyError (PStr (lit ''message'')))"
  by (simp add: bind_exn_def)

lemma lookup_without_content:
  "map_of c (lit ''message'') = Some (PDict m) \<Longrightarrow> map_of m (lit ''content'') = None \<Longrightarrow>
   bind_exn (py_getitem (PDict c) (lit ''message'')) (\<lambda>m. py_getitem m (lit ''content''))
   = Inl (KeyError (PStr (lit ''content'')))"
  by (simp add: bind_exn_def)

theorem make_api_request_lookup_fails_witness:
  "map_of [(lit ''choices'', PList [PDict []])] (lit ''choices'') = Some (PList (PDict [] # [])) \<and>
   bind_exn (py_getitem (PDict []) (lit ''message'')) (\<lambda>m. py_getitem m (lit ''content''))
     = Inl (KeyError (PStr (lit ''message''))) \<and>
   make_api_request ascii_runtime new_chatbot (lit ''hello'')
     (Success (PDict [(lit ''choices'', PList [PDict []])])) =
     (Inr (PStr (error_prefix @ [39] @ lit ''message'' @ [39])),
      new_chatbot\<lparr>conversation_history := conversation_history new_chatbot @
        [\<lparr>role = lit ''user'', content = PStr (lit ''hello'')\<rparr>]\<rparr>) \<and>
   error_prefix @ [39] @ lit ''message'' @ [39] \<noteq> apology"
proof -
  have h1: "map_of [(lit ''choices'', PList [PDict []])] (lit ''choices'')
            = Some (PList (PDict [] # []))"
    by simp
  have h2: "bind_exn (py_getitem (PDict []) (lit ''message''))
              (\<lambda>m. py_getitem m (lit ''content'')) = Inl (KeyError (PStr (lit ''message'')))"
    by (simp add: bind_exn_def)
  show ?thesis
    using h1 h2 make_api_request_lookup_fails [OF h1 h2, of ascii_runtime new_chatbot "lit ''hello''"]
    by (simp add: ascii_runtime_def)
qed

subsection \<open>The other HTTP errors\<close>

text \<open>Lines 75 to 77 reach the \<open>return\<close> exactly when the body has the field.\<close>

lemma nested_message_field:
  "(case nested_message d of Inl e \<Rightarrow> None | Inr r \<Rightarrow> r) =
   (case d of
      PDict kvs \<Rightarrow>
        (case map_of kvs (lit ''error'') of
           Some (PDict e) \<Rightarrow> map_of e (lit ''message'')
         | _ \<Rightarrow> None)
    | _ \<Rightarrow> None)"
proof (cases d)
  case (PDict kvs)
  show ?thesis
  proof (cases "map_of kvs (lit ''error'')")
    case None
    with PDict show ?thesis by (simp add: nested_message_def bind_exn_def)
  next
    case (Some err)
    with PDict show ?thesis
      by (cases err) (auto simp add: nested_message_def bind_exn_def split: option.splits)
  qed
qed (simp_all add: nested_message_def bind_exn_def)

text \<open>
  C6, as the code has it. For every status other than 401, 429 and 400 and every body
  that can be read and decoded, the method returns the cross mark and
  \<open>API Error (<code>): <body>\<close>; except that when the body parses as a JSON object whose
  member \<open>error\<close> is an object with a member \<open>message\<close>, it returns the cross mark and
  \<open>API Error: <message>\<close>, without the status.
\<close>

theorem make_api_request_other_status:
  assumes "code \<noteq> 401" "code \<noteq> 429" "code \<noteq> 400"
  shows "make_api_request rt self msg (HTTPError code (Inr b)) =
     (Inr (PStr (case error_message_field b of
                   Some m \<Rightarrow> cross @ lit '' API Error: '' @ py_format rt m
                 | None \<Rightarrow>
                     cross @ lit '' API Error ('' @ str_int code @ lit ''): '' @ error_msg b)),
      self\<lparr>conversation_history := conversation_history self @
        [\<lparr>role = lit ''user'', content = PStr msg\<rparr>]\<rparr>)"
proof -
  have "(case error_data b of None \<Rightarrow> None
         | Some d \<Rightarrow> (case nested_message d of Inl e \<Rightarrow> None | Inr r \<Rightarrow> r))
        = error_message_field b"
    by (cases "error_data b") (simp_all add: error_message_field_def nested_message_field)
  with assms show ?thesis
    by (simp add: make_api_request_def http_error_def api_error_def api_error_prefix_def
        split: option.splits)
qed

theorem make_api_request_other_status_witness:
  "(503::int) \<noteq> 401 \<and> (503::int) \<noteq> 429 \<and> (503::int) \<noteq> 400 \<and>
   fst (make_api_request ascii_runtime new_chatbot (lit ''hello'')
     (HTTPError 503 (Inr \<lparr>error_msg = lit ''busy'', error_data = None\<rparr>))) =
   Inr (PStr (cross @ lit '' API Error (503): busy''))"
proof -
  have h: "(503::int) \<noteq> 401" "(503::int) \<noteq> 429" "(503::int) \<noteq> 400" by simp_all
  show ?thesis
    using make_api_request_other_status [OF h, of ascii_runtime new_chatbot "lit ''hello''"
        "\<lparr>error_msg = lit ''busy'', error_data = None\<rparr>"]
    by (simp add: error_message_field_def str_int_def lit_def)
qed

text \<open>
  The claim as it was stated has the status in every such reply. Status 500 with the
  body \<open>{"error":{"message":"boom"}}\<close> gives a reply in which the status does not occur.
\<close>

theorem make_api_request_status_dropped_counterexample:
  "fst (make_api_request ascii_runtime new_chatbot (lit ''hello'')
     (HTTPError 500
        (Inr \<lparr>error_msg = lit ''{'' @ [34] @ lit ''error'' @ [34] @ lit '':{'' @ [34]
                 @ lit ''message'' @ [34] @ lit '':'' @ [34] @ lit ''boom'' @ [34] @ lit ''}}'',
              error_data = Some (PDict [(lit ''error'',
                PDict [(lit ''message'', PStr (lit ''boom''))])])\<rparr>)))
   = Inr (PStr (cross @ lit '' API Error: boom'')) \<and>
   \<not> is_substr (str_int 500) (cross @ lit '' API Error: boom'')"
  by (simp add: make_api_request_def http_error_def api_error_def nested_message_def bind_exn_def
      api_error_prefix_def cross_def str_int_def lit_def)

subsection \<open>Exchanges one after the other\<close>

lemma submissions_append:
  assumes "list_all (\<lambda>(m, r, a). first_choice r = Inr (Some a)) xs"
  shows "conversation_history (submissions rt self (map (\<lambda>(m, r, a). (m, Success r)) xs)) =
         conversation_history self @ concat (map exchange_pair xs)"
  using assms
proof (induction xs arbitrary: self)
  case Nil
  then show ?case by simp
next
  case (Cons x xs)
  obtain m r a where x: "x = (m, r, a)" by (cases x)
  with Cons.prems have fc: "first_choice r = Inr (Some a)"
    and rest: "list_all (\<lambda>(m, r, a). first_choice r = Inr (Some a)) xs"
    by simp_all
  show ?case
    using Cons.IH [OF rest] fc x
    by (simp add: make_api_request_def exchange_pair_def)
qed

lemma length_pairs: "length (concat (map exchange_pair xs)) = 2 * length xs"
  by (induction xs) (auto simp add: exchange_pair_def)

lemma roles_pairs:
  "map role (concat (map exchange_pair xs)) =
   concat (replicate (length xs) [lit ''user'', lit ''assistant''])"
  by (induction xs) (auto simp add: exchange_pair_def)

lemma first_choice_hi: "first_choice hi_body = Inr (Some (PStr (lit ''hi'')))"
  by (simp add: hi_body_def first_choice_dict bind_exn_def)

text \<open>
  C3, as the code has it. Take any sequence of calls, each with its text \<open>m\<close>, answered
  by a response \<open>r\<close> whose first choice carries \<open>message.content\<close>, the value \<open>a\<close>. The
  transcript afterwards is the one before followed, call by call, by the user message
  \<open>m\<close> and the assistant message \<open>a\<close>. From an empty transcript its length is twice the
  number of calls and the roles alternate, user first.
\<close>

theorem submissions_transcript:
  assumes "list_all (\<lambda>(m, r, a). first_choice r = Inr (Some a)) xs"
  shows "conversation_history (submissions rt self (map (\<lambda>(m, r, a). (m, Success r)) xs)) =
           conversation_history self @ concat (map exchange_pair xs) \<and>
         (conversation_history self = [] \<longrightarrow>
            length (conversation_history
                     (submissions rt self (map (\<lambda>(m, r, a). (m, Success r)) xs)))
              = 2 * length xs \<and>
            map role (conversation_history
                       (submissions rt self (map (\<lambda>(m, r, a). (m, Success r)) xs)))
              = concat (replicate (length xs) [lit ''user'', lit ''assistant'']))"
  using submissions_append [OF assms, of rt self]
  by (simp add: length_pairs roles_pairs)

theorem submissions_transcript_witness:
  "list_all (\<lambda>(m, r, a). first_choice r = Inr (Some a))
     [(lit ''hello'', hi_body, PStr (lit ''hi'')), (lit ''again'', hi_body, PStr (lit ''hi''))] \<and>
   conversation_history new_chatbot = [] \<and>
   conversation_history (submissions ascii_runtime new_chatbot
     [(lit ''hello'', Success hi_body), (lit ''again'', Success hi_body)]) =
     [\<lparr>role = lit ''user'', content = PStr (lit ''hello'')\<rparr>,
      \<lparr>role = lit ''assistant'', content = PStr (lit ''hi'')\<rparr>,
      \<lparr>role = lit ''user'', content = PStr (lit ''again'')\<rparr>,
      \<lparr>role = lit ''assistant'', content = PStr (lit ''hi'')\<rparr>] \<and>
   length (conversation_history (submissions ascii_runtime new_chatbot
     [(lit ''hello'', Success hi_body), (lit ''again'', Success hi_body)])) = 2 * 2"
proof -
  have h: "list_all (\<lambda>(m, r, a). first_choice r = Inr (Some a))
     [(lit ''hello'', hi_body, PStr (lit ''hi'')), (lit ''again'', hi_body, PStr (lit ''hi''))]"
    by (simp add: first_choice_hi)
  have e: "conversation_history new_chatbot = []" by (simp add: new_chatbot_def init_def)
  show ?thesis
    using h e submissions_transcript [OF h, of ascii_runtime new_chatbot]
    by (simp add: exchange_pair_def)
qed

text \<open>
  The claim as it was stated counts as a success every response with status 200 and at
  least one choice. The body \<open>{"choices":[{}]}\<close> is one, and after it the transcript
  holds the user message alone.
\<close>

theorem submissions_one_message_counterexample:
  "map role (conversation_history (submissions ascii_runtime new_chatbot
     [(lit ''hello'', Success (PDict [(lit ''choices'', PList [PDict []])]))])) = [lit ''user''] \<and>
   length (conversation_history (submissions ascii_runtime new_chatbot
     [(lit ''hello'', Success (PDict [(lit ''choices'', PList [PDict []])]))])) \<noteq> 2 * 1"
  by (simp add: make_api_request_def first_choice_dict bind_exn_def other_error_def
      new_chatbot_def init_def)

section \<open>Properties of the other methods\<close>

text \<open>
  C7. Whatever the transcript holds before, it is empty after \<open>reset_history\<close>.
\<close>

theorem reset_history_empty:
  "length (conversation_history (fst (reset_history self))) = 0"
  by (simp add: reset_history_def)

subsection \<open>\<open>show_history\<close>\<close>



lemma history_lines_raises:
  "shown_content (content m) = Inl e \<Longrightarrow> history_lines rt now i (m # rest) = ([], Some e)"
  by simp





subsection \<open>\<open>switch_models\<close> and the configuration\<close>

text \<open>Lines 157 to 166 by the cases of the selection.\<close>

lemma choose_model_cases:
  "choose_model rt self (Inr line) =
     (if isdigit rt (strip rt line) then
        (case py_int rt (strip rt line) of
           Inl e \<Rightarrow> (self, [Print ([10060] @ lit '' Error switching models: '' @ exc_str rt e), Print []], None)
         | Inr n \<Rightarrow>
             if 1 \<le> n \<and> n \<le> 3 then
               (self\<lparr>model := models ! nat (n - 1)\<rparr>,
                [Print ([9989] @ lit '' Switched to model: '' @ models ! nat (n - 1)), Print []], None)
             else (self, [Print invalid_selection, Print []], None))
      else (self, [Print cancelled, Print []], None))"
  by (auto simp add: choose_model_def isdigit_def py_int_def Let_def models_def
      split: sum.splits option.splits if_splits)

text \<open>
  The object after the body of the loop is the one before, or the one that
  \<open>reset_history\<close>, \<open>switch_models\<close> or \<open>make_api_request\<close> leaves.
\<close>

lemma attempt_cases:
  assumes "P self" "P (fst (reset_history self))" "P (fst (switch_models rt self (selected t)))"
    and "\<And>m. P (snd (make_api_request rt self m (served t)))"
  shows "P (fst (attempt rt self t))"
proof (cases "typed t")
  case (Inl e)
  with assms(1) show ?thesis by (simp add: attempt_def)
next
  case (Inr line)
  show ?thesis
    unfolding attempt_def Let_def Inr
    using assms
    by (simp add: case_prod_beta split: sum.split)
qed

lemma same_config_refl: "same_config a a"
  by (simp add: same_config_def)

lemma same_config_trans: "same_config a b \<Longrightarrow> same_config b c \<Longrightarrow> same_config a c"
  by (simp add: same_config_def)

lemma make_api_request_frame:
  "same_config (snd (make_api_request rt self msg ex)) self \<and>
   model (snd (make_api_request rt self msg ex)) = model self"
  by (simp add: make_api_request_def same_config_def Let_def
      split: exchange.split sum.split option.split)

lemma reset_history_frame:
  "same_config (fst (reset_history self)) self \<and> model (fst (reset_history self)) = model self"
  by (simp add: reset_history_def same_config_def)

lemma switch_models_eq:
  "switch_models rt self inp =
     (fst (choose_model rt self inp),
      list_models self @ [select_prompt] @ fst (snd (choose_model rt self inp)),
      snd (snd (choose_model rt self inp)))"
  by (simp add: switch_models_def case_prod_beta)

lemma choose_model_frame: "same_config (fst (choose_model rt self inp)) self"
proof (cases inp)
  case (Inl e)
  then show ?thesis by (simp add: choose_model_def same_config_def)
next
  case (Inr line)
  then show ?thesis by (simp add: choose_model_cases same_config_def split: sum.split)
qed

lemma choose_model_changes:
  assumes "model (fst (choose_model rt self inp)) \<noteq> model self"
  shows "\<exists>l k. inp = Inr l \<and> isdigit rt (strip rt l) \<and>
           py_int rt (strip rt l) = Inr k \<and> 1 \<le> k \<and> k \<le> 3 \<and>
           model (fst (choose_model rt self inp)) = models ! nat (k - 1)"
proof (cases inp)
  case (Inl e)
  with assms show ?thesis by (simp add: choose_model_def split: if_splits)
next
  case (Inr line)
  with assms show ?thesis
    by (auto simp add: choose_model_cases split: if_splits sum.splits)
qed

lemma pass_object: "fst (pass rt self t) = fst (attempt rt self t)"
  by (simp add: pass_def case_prod_beta split: option.split)

lemma pass_frame: "same_config (fst (pass rt self t)) self"
  unfolding pass_object
  by (rule attempt_cases)
    (simp_all add: same_config_refl reset_history_frame make_api_request_frame
      switch_models_eq choose_model_frame)

lemma pass_model:
  "model (fst (pass rt self t)) \<noteq> model self \<longrightarrow>
     (\<exists>l k. selected t = Inr l \<and> isdigit rt (strip rt l) \<and>
        py_int rt (strip rt l) = Inr k \<and> 1 \<le> k \<and> k \<le> 3 \<and>
        model (fst (pass rt self t)) = models ! nat (k - 1))"
  unfolding pass_object
proof (rule attempt_cases)
  show "model (fst (switch_models rt self (selected t))) \<noteq> model self \<longrightarrow>
     (\<exists>l k. selected t = Inr l \<and> isdigit rt (strip rt l) \<and>
        py_int rt (strip rt l) = Inr k \<and> 1 \<le> k \<and> k \<le> 3 \<and>
        model (fst (switch_models rt self (selected t))) = models ! nat (k - 1))"
    using choose_model_changes [of rt self "selected t"] by (simp add: switch_models_eq)
qed (simp_all add: reset_history_frame make_api_request_frame)

lemma passes_frame: "same_config (fst (passes rt self ts)) self"
proof (induction ts arbitrary: self)
  case Nil
  show ?case by (simp add: same_config_refl)
next
  case (Cons t ts)
  obtain self' out stop where p: "pass rt self t = (self', out, stop)"
    by (cases "pass rt self t") auto
  have one: "same_config self' self" using pass_frame [of rt self t] p by simp
  show ?case
  proof (cases stop)
    case True
    with p one show ?thesis by simp
  next
    case False
    with p have "fst (passes rt self (t # ts)) = fst (passes rt self' ts)"
      by (simp add: case_prod_beta)
    with Cons.IH [of self'] one show ?thesis
      by (auto intro: same_config_trans)
  qed
qed

lemma run_frame: "same_config (fst (run rt self ts)) self"
  using passes_frame [of rt self ts] by (simp add: run_def case_prod_beta)

lemma switch_models_typed:
  "switch_models rt self (Inr line) =
     (if isdigit rt (strip rt line) then
        (case py_int rt (strip rt line) of
           Inl e \<Rightarrow>
             (self, list_models self @ [select_prompt, Print (switch_error rt e), Print []], None)
         | Inr n \<Rightarrow>
             if 1 \<le> n \<and> n \<le> 3 then
               (self\<lparr>model := models ! nat (n - 1)\<rparr>,
                list_models self
                  @ [select_prompt, Print (switched (models ! nat (n - 1))), Print []], None)
             else (self, list_models self @ [select_prompt, Print invalid_selection, Print []],
                   None))
      else (self, list_models self @ [select_prompt, Print cancelled, Print []], None))"
  by (simp add: switch_models_eq choose_model_cases switch_error_def switched_def
      split: sum.split)

lemma switch_models_raised:
  "switch_models rt self (Inl e) =
     (if is_Exception e
      then (self, list_models self @ [select_prompt, Print (switch_error rt e), Print []], None)
      else (self, list_models self @ [select_prompt], Some e))"
  by (simp add: switch_models_eq choose_model_def switch_error_def)

lemma not_invalid:
  "cancelled \<noteq> invalid_selection \<and> switch_error rt e \<noteq> invalid_selection \<and>
   switched m \<noteq> invalid_selection"
  by (simp add: cancelled_def invalid_selection_def switch_error_def switched_def lit_def)

text \<open>
  C9, as the code has it. Whatever the current model, \<open>switch_models\<close> writes the list
  and the prompt, and then: for a selection that, once trimmed, is made of digits and
  converts to an integer outside 1..3, it leaves the object as it is and writes the
  message of an invalid selection; for one that converts to an integer inside 1..3 it
  replaces the model by the entry of that number and says so; for one that is not made
  of digits (empty, signed, any other text) it leaves the object as it is and writes
  \<open>Cancelled.\<close>; for one made of digits that \<open>int\<close> does not convert, and when \<open>input\<close>
  raises an \<open>Exception\<close>, it leaves the object as it is and writes the error. Neither
  of the last two messages is the message of an invalid selection. The model changes
  in \<open>switch_models\<close>, and in a pass of the loop of \<open>run\<close>, only when the selection is a
  number inside 1..3. No pass of the loop, and no run, changes the key, the URL or the
  token limit.
\<close>

theorem switch_models_selection:
  "(isdigit rt (strip rt line) \<longrightarrow> py_int rt (strip rt line) = Inr n \<longrightarrow> n < 1 \<or> 3 < n \<longrightarrow>
      switch_models rt self (Inr line) =
        (self, list_models self @ [select_prompt, Print invalid_selection, Print []], None)) \<and>
   (isdigit rt (strip rt line) \<longrightarrow> py_int rt (strip rt line) = Inr n \<longrightarrow> 1 \<le> n \<longrightarrow> n \<le> 3 \<longrightarrow>
      switch_models rt self (Inr line) =
        (self\<lparr>model := models ! nat (n - 1)\<rparr>,
         list_models self @ [select_prompt, Print (switched (models ! nat (n - 1))), Print []],
         None)) \<and>
   (\<not> isdigit rt (strip rt line) \<longrightarrow>
      switch_models rt self (Inr line) =
        (self, list_models self @ [select_prompt, Print cancelled, Print []], None)) \<and>
   (isdigit rt (strip rt line) \<longrightarrow> py_int rt (strip rt line) = Inl e \<longrightarrow>
      switch_models rt self (Inr line) =
        (self, list_models self @ [select_prompt, Print (switch_error rt e), Print []], None)) \<and>
   (is_Exception e \<longrightarrow>
      switch_models rt self (Inl e) =
        (self, list_models self @ [select_prompt, Print (switch_error rt e), Print []], None)) \<and>
   cancelled \<noteq> invalid_selection \<and> switch_error rt e \<noteq> invalid_selection \<and>
   (model (fst (switch_models rt self inp)) \<noteq> model self \<longrightarrow>
      (\<exists>l k. inp = Inr l \<and> isdigit rt (strip rt l) \<and> py_int rt (strip rt l) = Inr k \<and>
         1 \<le> k \<and> k \<le> 3 \<and> model (fst (switch_models rt self inp)) = models ! nat (k - 1))) \<and>
   (model (fst (pass rt self t)) \<noteq> model self \<longrightarrow>
      (\<exists>l k. selected t = Inr l \<and> isdigit rt (strip rt l) \<and> py_int rt (strip rt l) = Inr k \<and>
         1 \<le> k \<and> k \<le> 3 \<and> model (fst (pass rt self t)) = models ! nat (k - 1))) \<and>
   same_config (fst (pass rt self t)) self \<and>
   same_config (fst (run rt self ts)) self"
proof -
  have "model (fst (switch_models rt self inp)) \<noteq> model self \<longrightarrow>
      (\<exists>l k. inp = Inr l \<and> isdigit rt (strip rt l) \<and> py_int rt (strip rt l) = Inr k \<and>
         1 \<le> k \<and> k \<le> 3 \<and> model (fst (switch_models rt self inp)) = models ! nat (k - 1))"
    using choose_model_changes [of rt self inp] by (simp add: switch_models_eq)
  then show ?thesis
    using pass_model [of rt self t] not_invalid [of rt e]
    by (simp add: switch_models_typed switch_models_raised pass_frame run_frame)
qed

theorem switch_models_selection_witness:
  "isdigit ascii_runtime (strip ascii_runtime (lit '' 7'')) \<and>
   py_int ascii_runtime (strip ascii_runtime (lit '' 7'')) = Inr 7 \<and>
   ((7::int) < 1 \<or> (3::int) < 7) \<and>
   switch_models ascii_runtime new_chatbot (Inr (lit '' 7'')) =
     (new_chatbot,
      list_models new_chatbot @ [select_prompt, Print invalid_selection, Print []], None) \<and>
   isdigit ascii_runtime (strip ascii_runtime (lit ''2'')) \<and>
   py_int ascii_runtime (strip ascii_runtime (lit ''2'')) = Inr 2 \<and>
   switch_models ascii_runtime new_chatbot (Inr (lit ''2'')) =
     (new_chatbot\<lparr>model := lit ''gpt-4''\<rparr>,
      list_models new_chatbot @ [select_prompt, Print (switched (lit ''gpt-4'')), Print []],
      None) \<and>
   \<not> isdigit ascii_runtime (strip ascii_runtime []) \<and>
   switch_models ascii_runtime new_chatbot (Inr []) =
     (new_chatbot, list_models new_chatbot @ [select_prompt, Print cancelled, Print []], None) \<and>
   isdigit superscript_runtime (strip superscript_runtime [178]) \<and>
   py_int superscript_runtime (strip superscript_runtime [178]) = Inl (Builtin (BadInt [178])) \<and>
   switch_models superscript_runtime new_chatbot (Inr [178]) =
     (new_chatbot,
      list_models new_chatbot
        @ [select_prompt, Print (switch_error superscript_runtime (Builtin (BadInt [178]))),
           Print []], None) \<and>
   is_Exception (Raised (lit ''EOFError'') (lit ''EOF when reading a line'')) \<and>
   switch_models ascii_runtime new_chatbot
     (Inl (Raised (lit ''EOFError'') (lit ''EOF when reading a line''))) =
     (new_chatbot,
      list_models new_chatbot
        @ [select_prompt,
           Print (switch_error ascii_runtime
                    (Raised (lit ''EOFError'') (lit ''EOF when reading a line''))),
           Print []], None)"
proof -
  have s7: "strip ascii_runtime (lit '' 7'') = lit ''7''"
    by (simp add: strip_def is_space_def ascii_runtime_def lit_def)
  have s2: "strip ascii_runtime (lit ''2'') = lit ''2''"
    by (simp add: strip_def is_space_def ascii_runtime_def lit_def)
  have s0: "strip ascii_runtime [] = []"
    by (simp add: strip_def)
  have sq: "strip superscript_runtime [178] = [178]"
    by (simp add: strip_def is_space_def superscript_runtime_def ascii_runtime_def)
  have d7: "isdigit ascii_runtime (lit ''7'')" and d2: "isdigit ascii_runtime (lit ''2'')"
    by (simp_all add: isdigit_def is_digit_def lit_def)
  have d0: "\<not> isdigit ascii_runtime []"
    by (simp add: isdigit_def)
  have dq: "isdigit superscript_runtime [178]"
    by (simp add: isdigit_def is_digit_def superscript_runtime_def)
  have i7: "py_int ascii_runtime (lit ''7'') = Inr 7"
    and i2: "py_int ascii_runtime (lit ''2'') = Inr 2"
    by (simp_all add: py_int_def decimal_def ascii_runtime_def lit_def)
  have iq: "py_int superscript_runtime [178] = Inl (Builtin (BadInt [178]))"
    by (simp add: py_int_def decimal_def superscript_runtime_def ascii_runtime_def)
  show ?thesis
    using switch_models_selection [of ascii_runtime "lit '' 7''" 7 new_chatbot
          "Raised (lit ''EOFError'') (lit ''EOF when reading a line'')"]
      switch_models_selection [of ascii_runtime "lit ''2''" 2 new_chatbot]
      switch_models_selection [of ascii_runtime "[]" _ new_chatbot]
      switch_models_selection [of superscript_runtime "[178]" _ new_chatbot "Builtin (BadInt [178])"]
    by (simp add: s7 s2 s0 sq d7 d2 d0 dq i7 i2 iq models_def)
qed


text \<open>
  The claim as it was stated takes every numeric selection outside 1..3. The selection
  \<open>-1\<close> is one; \<open>isdigit\<close> rejects it, and the method writes \<open>Cancelled.\<close>, not the
  message of an invalid selection.
\<close>

theorem switch_models_negative_counterexample:
  "fst (snd (switch_models ascii_runtime new_chatbot (Inr (lit ''-1'')))) =
     list_models new_chatbot @ [select_prompt, Print cancelled, Print []] \<and>
   Print invalid_selection \<notin> set (fst (snd (switch_models ascii_runtime new_chatbot (Inr (lit ''-1'')))))"
proof -
  have s: "strip ascii_runtime (lit ''-1'') = lit ''-1''"
    by (simp add: strip_def is_space_def ascii_runtime_def lit_def)
  have d: "\<not> isdigit ascii_runtime (lit ''-1'')"
    by (simp add: isdigit_def is_digit_def lit_def)
  have out: "fst (snd (switch_models ascii_runtime new_chatbot (Inr (lit ''-1'')))) =
     list_models new_chatbot @ [select_prompt, Print cancelled, Print []]"
    by (simp add: switch_models_eq choose_model_cases s d)
  have "Print invalid_selection \<notin> set (list_models new_chatbot @ [select_prompt, Print cancelled, Print []])"
    by (simp add: list_models_def models_def select_prompt_def cancelled_def invalid_selection_def
        lit_def upt_rec)
  with out show ?thesis by simp
qed

end
